theory Spec2Isabelle
  imports Complex_Main "HOL-Library.Code_Target_Numeral"
begin

section \<open>JavaScript numbers\<close>

text \<open>
  The SDK computes with JavaScript numbers. A number is modelled as a finite value or one
  of the three special values; finite values are rationals and finite arithmetic is
  exact (no rounding, no overflow, no negative zero).
\<close>

datatype number = Fin rat | PosInf | NegInf | NaN

fun isFinite :: "number \<Rightarrow> bool" where
  "isFinite (Fin a) = True"
| "isFinite PosInf = False"
| "isFinite NegInf = False"
| "isFinite NaN = False"

text \<open>\<open>x < y\<close> and \<open>x <= y\<close> of JavaScript: every comparison with NaN is false.\<close>

fun js_lt :: "number \<Rightarrow> number \<Rightarrow> bool" where
  "js_lt NaN y = False"
| "js_lt x NaN = False"
| "js_lt (Fin a) (Fin b) = (a < b)"
| "js_lt (Fin a) PosInf = True"
| "js_lt (Fin a) NegInf = False"
| "js_lt PosInf y = False"
| "js_lt NegInf NegInf = False"
| "js_lt NegInf y = True"

fun js_le :: "number \<Rightarrow> number \<Rightarrow> bool" where
  "js_le NaN y = False"
| "js_le x NaN = False"
| "js_le (Fin a) (Fin b) = (a \<le> b)"
| "js_le (Fin a) PosInf = True"
| "js_le (Fin a) NegInf = False"
| "js_le PosInf PosInf = True"
| "js_le PosInf y = False"
| "js_le NegInf y = True"

text \<open>\<open>x * y\<close> of JavaScript: infinity times zero is NaN.\<close>

fun js_mul :: "number \<Rightarrow> number \<Rightarrow> number" where
  "js_mul NaN y = NaN"
| "js_mul x NaN = NaN"
| "js_mul (Fin a) (Fin b) = Fin (a * b)"
| "js_mul (Fin a) PosInf = (if a = 0 then NaN else if 0 < a then PosInf else NegInf)"
| "js_mul (Fin a) NegInf = (if a = 0 then NaN else if 0 < a then NegInf else PosInf)"
| "js_mul PosInf (Fin b) = (if b = 0 then NaN else if 0 < b then PosInf else NegInf)"
| "js_mul NegInf (Fin b) = (if b = 0 then NaN else if 0 < b then NegInf else PosInf)"
| "js_mul PosInf PosInf = PosInf"
| "js_mul PosInf NegInf = NegInf"
| "js_mul NegInf PosInf = NegInf"
| "js_mul NegInf NegInf = PosInf"

fun Math_ceil :: "number \<Rightarrow> number" where
  "Math_ceil (Fin a) = Fin (of_int \<lceil>a\<rceil>)"
| "Math_ceil PosInf = PosInf"
| "Math_ceil NegInf = NegInf"
| "Math_ceil NaN = NaN"

section \<open>Errors (errors.ts)\<close>

text \<open>
  The four error classes. A message is kept up to its static text; the fields are those
  of the constructors: \<open>InsufficientCreditsError required available\<close>,
  \<open>TransactionError message txId\<close>,
  \<open>BalanceVerificationError message userId cached calculated\<close>,
  \<open>PricingConfigError message action\<close>.
\<close>

datatype error =
    InsufficientCreditsError rat rat
  | TransactionError string "string option"
  | BalanceVerificationError string string rat rat
  | PricingConfigError string "string option"

section \<open>Pricing engine (pricing.ts)\<close>

record PricingConfig =
  rate :: number
  unit :: string
  calculate :: "number \<Rightarrow> number"

definition PRICING_CONFIG :: "string \<rightharpoonup> PricingConfig" where
  "PRICING_CONFIG =
     [''video_generation'' \<mapsto>
        \<lparr>rate = Fin 10, unit = ''second'',
         calculate = (\<lambda>seconds. Math_ceil (js_mul seconds (Fin 10)))\<rparr>,
      ''training_job'' \<mapsto>
        \<lparr>rate = Fin 1000, unit = ''gpu_hour'',
         calculate = (\<lambda>hours. Math_ceil (js_mul hours (Fin 1000)))\<rparr>]"

text \<open>The constructor: \<open>this.config = customConfig || PRICING_CONFIG\<close>.\<close>

definition PricingEngine :: "(string \<rightharpoonup> PricingConfig) option \<Rightarrow> (string \<rightharpoonup> PricingConfig)" where
  "PricingEngine customConfig = (case customConfig of None \<Rightarrow> PRICING_CONFIG | Some c \<Rightarrow> c)"

definition setPricingConfig ::
  "(string \<rightharpoonup> PricingConfig) \<Rightarrow> string \<Rightarrow> PricingConfig \<Rightarrow> (string \<rightharpoonup> PricingConfig)" where
  "setPricingConfig config action c = config(action \<mapsto> c)"

definition calculateCost :: "(string \<rightharpoonup> PricingConfig) \<Rightarrow> string \<Rightarrow> number \<Rightarrow> error + number" where
  "calculateCost config action v =
     (case config action of
        None \<Rightarrow> Inl (PricingConfigError ''No pricing configuration found for action'' (Some action))
      | Some c \<Rightarrow>
          if js_lt v (Fin 0)
          then Inl (PricingConfigError ''Value must be non-negative'' (Some action))
          else Inr (calculate c v))"

text \<open>
  The engine of the test "should allow custom pricing config": one action with rate 5
  whose \<open>calculate\<close> multiplies and does not round.
\<close>

definition custom_action :: PricingConfig where
  "custom_action = \<lparr>rate = Fin 5, unit = ''item'', calculate = (\<lambda>v. js_mul v (Fin 5))\<rparr>"

definition customEngine :: "string \<rightharpoonup> PricingConfig" where
  "customEngine = PricingEngine (Some [''custom_action'' \<mapsto> custom_action])"

section \<open>Strings\<close>

text \<open>
  Strings are lists of bytes; the model covers ASCII text. \<open>is_space\<close> is the white space
  that \<open>String.prototype.trim\<close> and the regular expression class \<open>\s\<close> remove.
\<close>

definition is_space :: "char \<Rightarrow> bool" where
  "is_space c \<longleftrightarrow>
     c = CHR '' '' \<or> c = CHR 0x09 \<or> c = CHR 0x0A \<or> c = CHR 0x0B \<or> c = CHR 0x0C \<or> c = CHR 0x0D"

definition trim :: "string \<Rightarrow> string" where
  "trim s = rev (dropWhile is_space (rev (dropWhile is_space s)))"

fun starts_with :: "string \<Rightarrow> string \<Rightarrow> bool" where
  "starts_with [] s = True"
| "starts_with (c # p) [] = False"
| "starts_with (c # p) (d # s) = (c = d \<and> starts_with p s)"

text \<open>\<open>js_includes s p\<close> is \<open>s.includes(p)\<close>.\<close>

fun js_includes :: "string \<Rightarrow> string \<Rightarrow> bool" where
  "js_includes [] p = (p = [])"
| "js_includes (c # s) p = (starts_with p (c # s) \<or> js_includes s p)"

definition is_digit :: "char \<Rightarrow> bool" where
  "is_digit c \<longleftrightarrow> (48::nat) \<le> of_char c \<and> of_char c \<le> (57::nat)"

definition digit_val :: "char \<Rightarrow> nat" where
  "digit_val c = of_char c - 48"

definition digit_char :: "nat \<Rightarrow> char" where
  "digit_char n = char_of (48 + n)"

fun show_nat :: "nat \<Rightarrow> string" where
  "show_nat n = (if n < 10 then [digit_char n] else show_nat (n div 10) @ [digit_char (n mod 10)])"

definition digits_val :: "string \<Rightarrow> nat" where
  "digits_val ds = foldl (\<lambda>a c. 10 * a + digit_val c) 0 ds"

text \<open>
  \<open>parseFloat\<close> on the texts it is applied to in the client: a run of digits, optionally
  followed by a point and a run of digits (what the regular expression below captures),
  or the literal \<open>'0'\<close>.
\<close>

definition parseFloat :: "string \<Rightarrow> rat" where
  "parseFloat s =
     (let ip = takeWhile is_digit s; r = dropWhile is_digit s in
      case r of
        [] \<Rightarrow> of_nat (digits_val ip)
      | c # t \<Rightarrow>
          if c = CHR ''.''
          then (let fs = takeWhile is_digit t
                in of_nat (digits_val ip) + of_nat (digits_val fs) / 10 ^ length fs)
          else of_nat (digits_val ip))"

text \<open>
  The regular expression \<open>/INSUFFICIENT_CREDITS:?\s*(\d+(?:\.\d+)?)/\<close> of \<open>deduct\<close>.
  \<open>match_here s\<close> is the capture group when the expression matches at the start of \<open>s\<close>:
  the literal, an optional colon, white space, then at least one digit and optionally a
  point with at least one digit. Backtracking finds nothing more: a colon or a space
  given back is not a digit. \<open>regex_match\<close> is \<open>message.match(...)?.[1]\<close>: the leftmost
  position where the expression matches.
\<close>

definition match_here :: "string \<Rightarrow> string option" where
  "match_here s =
     (if starts_with ''INSUFFICIENT_CREDITS'' s
      then (let r0 = drop 20 s;
                r1 = (case r0 of [] \<Rightarrow> r0 | c # t \<Rightarrow> if c = CHR '':'' then t else r0);
                r2 = dropWhile is_space r1;
                ds = takeWhile is_digit r2;
                r3 = dropWhile is_digit r2
            in if ds = [] then None
               else (case r3 of
                       [] \<Rightarrow> Some ds
                     | c # t \<Rightarrow>
                         if c = CHR ''.'' \<and> takeWhile is_digit t \<noteq> []
                         then Some (ds @ c # takeWhile is_digit t)
                         else Some ds))
      else None)"

fun regex_match :: "string \<Rightarrow> string option" where
  "regex_match [] = match_here []"
| "regex_match (c # s) =
     (case match_here (c # s) of Some g \<Rightarrow> Some g | None \<Rightarrow> regex_match s)"

section \<open>Lua number formatting\<close>

text \<open>
  The deduction script builds its error reply with \<open>'INSUFFICIENT_CREDITS:' .. balance\<close>.
  Lua 5.1, the language of the store's scripts, converts the number with the C format
  \<open>%.14g\<close>: 14 significant digits, fixed notation when the decimal exponent is at least
  -4 and below 14, scientific notation otherwise, trailing zeros removed.
\<close>

fun ndigits :: "nat \<Rightarrow> nat" where
  "ndigits n = (if n < 10 then 1 else Suc (ndigits (n div 10)))"

definition round_half_even :: "rat \<Rightarrow> int" where
  "round_half_even q =
     (let f = \<lfloor>q\<rfloor>; d = q - of_int f
      in if d < 1 / 2 then f else if 1 / 2 < d then f + 1 else if even f then f else f + 1)"

definition pow10 :: "int \<Rightarrow> rat" where
  "pow10 k = (if 0 \<le> k then 10 ^ nat k else 1 / 10 ^ nat (- k))"

text \<open>For \<open>a > 0\<close>: the exponent \<open>X\<close> with \<open>10^X \<le> a < 10^(X+1)\<close>.\<close>

definition dec_exponent :: "rat \<Rightarrow> int" where
  "dec_exponent a =
     (if 1 \<le> a then int (ndigits (nat \<lfloor>a\<rfloor>)) - 1
      else - int (ndigits (nat (\<lceil>1 / a\<rceil> - 1))))"

definition strip_zeros :: "string \<Rightarrow> string" where
  "strip_zeros s = rev (dropWhile (\<lambda>c. c = CHR ''0'') (rev s))"

definition pad_zeros :: "nat \<Rightarrow> string \<Rightarrow> string" where
  "pad_zeros w s = replicate (w - length s) (CHR ''0'') @ s"

text \<open>\<open>fmt_g14 a\<close> is \<open>%.14g\<close> of a positive number.\<close>

definition fmt_g14 :: "rat \<Rightarrow> string" where
  "fmt_g14 a =
     (let X0 = dec_exponent a;
          m0 = nat (round_half_even (a * pow10 (13 - X0)));
          m = (if 10 ^ 14 \<le> m0 then m0 div 10 else m0);
          X = (if 10 ^ 14 \<le> m0 then X0 + 1 else X0)
      in if - 4 \<le> X \<and> X < 14
         then (let sh = nat (13 - X);
                   frac = strip_zeros (pad_zeros sh (show_nat (m mod 10 ^ sh)))
               in show_nat (m div 10 ^ sh) @ (if frac = [] then [] else CHR ''.'' # frac))
         else (let frac = strip_zeros (pad_zeros 13 (show_nat (m mod 10 ^ 13)))
               in show_nat (m div 10 ^ 13) @ (if frac = [] then [] else CHR ''.'' # frac)
                  @ [CHR ''e'', if X < 0 then CHR ''-'' else CHR ''+'']
                  @ pad_zeros 2 (show_nat (nat \<bar>X\<bar>))))"

definition lua_tostring :: "rat \<Rightarrow> string" where
  "lua_tostring v =
     (if v = 0 then ''0'' else if v < 0 then CHR ''-'' # fmt_g14 (- v) else fmt_g14 v)"

section \<open>Transactions and the store\<close>

datatype json = JNum rat | JStr string | JBool bool | JNull

type_synonym metadata = "(string \<times> json) list"

record Transaction =
  id_tx :: string
  amount :: rat
  action :: string
  metadata :: "metadata option"
  timestamp :: int

record TransactionResult =
  txId :: string
  balance :: rat
  timestamp_res :: int

record TransactionQueryOptions =
  limit :: "int option"
  startTime :: "int option"
  endTime :: "int option"

record BalanceVerification =
  valid :: bool
  cached :: rat
  calculated :: rat
  difference :: rat

text \<open>
  A member of a transaction log is the text \<open>JSON.stringify\<close> made of a transaction, or
  some other text that \<open>JSON.parse\<close> rejects. Serialising and parsing a transaction is
  the identity.
\<close>

datatype member = TxJson Transaction | Raw string

definition JSON_stringify :: "Transaction \<Rightarrow> member" where
  "JSON_stringify tx = TxJson tx"

fun JSON_parse :: "member \<Rightarrow> Transaction option" where
  "JSON_parse (TxJson tx) = Some tx"
| "JSON_parse (Raw s) = None"

text \<open>
  The remote store: string keys that hold a number, and sorted sets of members with an
  integer score. A sorted set is kept as the list of its (score, member) pairs; a key
  without a sorted set holds the empty list. Numbers cross the store boundary unchanged
  and the store answers every call.

  \<open>ZADD\<close> gives a member its score: a member already in the set is moved, not added
  twice. The order of a sorted set is by score; members of equal score are kept in the
  order of the list (the store orders them by their bytes, which the model does not
  have).
\<close>

type_synonym zset = "(int \<times> member) list"

record store =
  strings :: "string \<rightharpoonup> rat"
  zsets :: "string \<Rightarrow> zset"

definition GET :: "store \<Rightarrow> string \<Rightarrow> rat option" where
  "GET s k = strings s k"

definition SET :: "store \<Rightarrow> string \<Rightarrow> rat \<Rightarrow> store" where
  "SET s k v = s\<lparr>strings := (strings s)(k \<mapsto> v)\<rparr>"

definition zadd :: "zset \<Rightarrow> int \<Rightarrow> member \<Rightarrow> zset" where
  "zadd z score m = filter (\<lambda>e. snd e \<noteq> m) z @ [(score, m)]"

definition ZADD :: "store \<Rightarrow> string \<Rightarrow> int \<Rightarrow> member \<Rightarrow> store" where
  "ZADD s k score m = s\<lparr>zsets := (zsets s)(k := zadd (zsets s k) score m)\<rparr>"

text \<open>\<open>ZRANGE key start stop\<close> by rank, lowest score first; a negative rank counts from the end.\<close>

definition zrange :: "zset \<Rightarrow> int \<Rightarrow> int \<Rightarrow> member list" where
  "zrange z start stop =
     (let xs = map snd (sort_key fst z);
          n = int (length xs);
          a = (if start < 0 then max 0 (n + start) else start);
          b = (if stop < 0 then n + stop else min stop (n - 1))
      in if b < a then [] else take (nat (b - a + 1)) (drop (nat a) xs))"

text \<open>\<open>ZRANGE key start stop REV\<close> by rank, highest score first.\<close>

definition zrange_rev :: "zset \<Rightarrow> int \<Rightarrow> int \<Rightarrow> member list" where
  "zrange_rev z start stop =
     (let xs = map snd (rev (sort_key fst z));
          n = int (length xs);
          a = (if start < 0 then max 0 (n + start) else start);
          b = (if stop < 0 then n + stop else min stop (n - 1))
      in if b < a then [] else take (nat (b - a + 1)) (drop (nat a) xs))"

text \<open>
  \<open>ZRANGE key start stop BYSCORE REV [LIMIT offset count]\<close>. In a reverse range by score
  the first bound is the highest score and the second the lowest: the members with
  \<open>stop \<le> score \<le> start\<close>, highest score first. The built package's time-bounded query
  calls it so, \<open>zrange(txsKey, max, min, {byScore: true, rev: true})\<close>. A negative
  count, or no limit, returns every member from the offset.
\<close>

definition zrange_byscore_rev :: "zset \<Rightarrow> int \<Rightarrow> int \<Rightarrow> (int \<times> int) option \<Rightarrow> member list" where
  "zrange_byscore_rev z start stop lmt =
     (let xs = filter (\<lambda>e. stop \<le> fst e \<and> fst e \<le> start) (rev (sort_key fst z))
      in map snd
           (case lmt of
              None \<Rightarrow> xs
            | Some (offset, count) \<Rightarrow>
                if count < 0 then drop (nat offset) xs
                else take (nat count) (drop (nat offset) xs)))"

section \<open>The client (client.ts)\<close>

record CreditsSDK =
  defaultCredits :: number

text \<open>The constructor: \<open>config.options?.defaultCredits || 100\<close>; zero and NaN are falsy.\<close>

definition new_CreditsSDK :: "number option \<Rightarrow> CreditsSDK" where
  "new_CreditsSDK opt =
     \<lparr>defaultCredits =
        (case opt of
           None \<Rightarrow> Fin 100
         | Some d \<Rightarrow> if d = Fin 0 \<or> d = NaN then Fin 100 else d)\<rparr>"

text \<open>
  What a call reads from its environment: the text \<open>generateTxId()\<close> returns (made of the
  clock and a random number), \<open>Date.now()\<close> when the transaction is built, and
  \<open>Date.now()\<close> when an already initialised user is reported.
\<close>

record call_env =
  generateTxId :: string
  Date_now :: int
  Date_now_after :: int

definition getBalanceKey :: "string \<Rightarrow> string" where
  "getBalanceKey userId = ''balance:'' @ userId"

definition getTransactionsKey :: "string \<Rightarrow> string" where
  "getTransactionsKey userId = ''txs:'' @ userId"

text \<open>\<open>validateUserId\<close> returns the error it throws, if any.\<close>

definition validateUserId :: "string \<Rightarrow> error option" where
  "validateUserId userId =
     (if userId = [] then Some (TransactionError ''userId is required and must be a string'' None)
      else (let trimmedUserId = trim userId
            in if length trimmedUserId = 0
               then Some (TransactionError ''userId cannot be empty or whitespace'' None)
               else if length trimmedUserId > 256
               then Some (TransactionError ''userId cannot exceed 256 characters'' None)
               else if CHR 0x0A \<in> set trimmedUserId \<or> CHR 0x0D \<in> set trimmedUserId
               then Some (TransactionError ''userId cannot contain newline characters'' None)
               else None))"

subsection \<open>initializeUser\<close>

text \<open>
  The Lua script: the reply \<open>{balance, already_exists}\<close> and the store after it. In the
  client functions the test \<open>!Number.isFinite(x)\<close> is the case of a number that is not
  \<open>Fin\<close>.
\<close>

definition initialize_script ::
  "store \<Rightarrow> string \<Rightarrow> string \<Rightarrow> rat \<Rightarrow> member \<Rightarrow> int \<Rightarrow> (rat \<times> bool) \<times> store" where
  "initialize_script s balance_key txs_key starting_credits tx_data ts =
     (case GET s balance_key of
        Some existing_balance \<Rightarrow> ((existing_balance, True), s)
      | None \<Rightarrow>
          ((starting_credits, False),
           ZADD (SET s balance_key starting_credits) txs_key ts tx_data))"

definition initialize_transaction :: "call_env \<Rightarrow> rat \<Rightarrow> Transaction" where
  "initialize_transaction e startingCredits =
     \<lparr>id_tx = generateTxId e, amount = startingCredits, action = ''user_initialized'',
      metadata = Some [(''starting_credits'', JNum startingCredits)],
      timestamp = Date_now e\<rparr>"

definition initializeUser ::
  "CreditsSDK \<Rightarrow> call_env \<Rightarrow> store \<Rightarrow> string \<Rightarrow> number option
     \<Rightarrow> (error + TransactionResult) \<times> store" where
  "initializeUser sdk e s userId credits =
     (case validateUserId userId of
        Some err \<Rightarrow> (Inl err, s)
      | None \<Rightarrow>
          (let startingCredits = (case credits of None \<Rightarrow> defaultCredits sdk | Some c \<Rightarrow> c)
           in if js_lt startingCredits (Fin 0)
              then (Inl (TransactionError ''Starting credits must be non-negative'' None), s)
              else (case startingCredits of
                      Fin x \<Rightarrow>
                        (case initialize_script s (getBalanceKey userId) (getTransactionsKey userId)
                                x (JSON_stringify (initialize_transaction e x)) (Date_now e) of
                           ((bal, alreadyExists), s') \<Rightarrow>
                             if alreadyExists
                             then (Inr \<lparr>txId = ''already_initialized'', balance = bal,
                                        timestamp_res = Date_now_after e\<rparr>, s')
                             else (Inr \<lparr>txId = generateTxId e, balance = bal,
                                        timestamp_res = Date_now e\<rparr>, s'))
                    | _ \<Rightarrow>
                        (Inl (TransactionError ''Starting credits must be a finite number'' None), s))))"

subsection \<open>deduct\<close>

text \<open>
  The Lua script: an error reply (its text) or the new balance, and the store after it.
  The client receives an error reply as an exception whose message is that text.
\<close>

definition deduct_script ::
  "store \<Rightarrow> string \<Rightarrow> string \<Rightarrow> rat \<Rightarrow> member \<Rightarrow> int \<Rightarrow> (string + rat) \<times> store" where
  "deduct_script s balance_key txs_key amt tx_data ts =
     (let bal = (case GET s balance_key of None \<Rightarrow> 0 | Some b \<Rightarrow> b)
      in if bal < amt then (Inl (''INSUFFICIENT_CREDITS:'' @ lua_tostring bal), s)
         else (let new_balance = bal - amt
               in (Inr new_balance, ZADD (SET s balance_key new_balance) txs_key ts tx_data)))"

text \<open>The \<open>catch\<close> block of \<open>deduct\<close>, on an exception with the given message.\<close>

definition deduct_catch :: "string \<Rightarrow> rat \<Rightarrow> string \<Rightarrow> error" where
  "deduct_catch message amt txid =
     (if js_includes message ''INSUFFICIENT_CREDITS''
      then (let availableBalance =
                  parseFloat (case regex_match message of None \<Rightarrow> ''0'' | Some g \<Rightarrow> g)
            in InsufficientCreditsError amt availableBalance)
      else TransactionError (''Deduction failed: '' @ message) (Some txid))"

definition action_missing :: "string \<Rightarrow> bool" where
  "action_missing act \<longleftrightarrow> act = [] \<or> length (trim act) = 0"

definition deduct_transaction :: "call_env \<Rightarrow> rat \<Rightarrow> string \<Rightarrow> metadata option \<Rightarrow> Transaction" where
  "deduct_transaction e amt act md =
     \<lparr>id_tx = generateTxId e, amount = - amt, action = act, metadata = md,
      timestamp = Date_now e\<rparr>"

definition deduct ::
  "call_env \<Rightarrow> store \<Rightarrow> string \<Rightarrow> number \<Rightarrow> string \<Rightarrow> metadata option
     \<Rightarrow> (error + TransactionResult) \<times> store" where
  "deduct e s userId amt act md =
     (case validateUserId userId of
        Some err \<Rightarrow> (Inl err, s)
      | None \<Rightarrow>
          if js_le amt (Fin 0)
          then (Inl (TransactionError ''Deduct amount must be positive and non-zero'' None), s)
          else (case amt of
                  Fin a \<Rightarrow>
                    if action_missing act
                    then (Inl (TransactionError
                                 ''action is required and must be a non-empty string'' None), s)
                    else (case deduct_script s (getBalanceKey userId) (getTransactionsKey userId)
                                 a (JSON_stringify (deduct_transaction e a act md)) (Date_now e) of
                            (Inr newBalance, s') \<Rightarrow>
                              (Inr \<lparr>txId = generateTxId e, balance = newBalance,
                                    timestamp_res = Date_now e\<rparr>, s')
                          | (Inl message, s') \<Rightarrow>
                              (Inl (deduct_catch message a (generateTxId e)), s'))
                | _ \<Rightarrow> (Inl (TransactionError ''Deduct amount must be a finite number'' None), s)))"

subsection \<open>add\<close>

definition add_script ::
  "store \<Rightarrow> string \<Rightarrow> string \<Rightarrow> rat \<Rightarrow> member \<Rightarrow> int \<Rightarrow> rat \<times> store" where
  "add_script s balance_key txs_key amt tx_data ts =
     (let bal = (case GET s balance_key of None \<Rightarrow> 0 | Some b \<Rightarrow> b);
          new_balance = bal + amt
      in (new_balance, ZADD (SET s balance_key new_balance) txs_key ts tx_data))"

definition add_transaction :: "call_env \<Rightarrow> rat \<Rightarrow> string \<Rightarrow> metadata option \<Rightarrow> Transaction" where
  "add_transaction e amt act md =
     \<lparr>id_tx = generateTxId e, amount = amt, action = act, metadata = md,
      timestamp = Date_now e\<rparr>"

definition add ::
  "call_env \<Rightarrow> store \<Rightarrow> string \<Rightarrow> number \<Rightarrow> string \<Rightarrow> metadata option
     \<Rightarrow> (error + TransactionResult) \<times> store" where
  "add e s userId amt act md =
     (case validateUserId userId of
        Some err \<Rightarrow> (Inl err, s)
      | None \<Rightarrow>
          if js_le amt (Fin 0)
          then (Inl (TransactionError ''Add amount must be positive and non-zero'' None), s)
          else (case amt of
                  Fin a \<Rightarrow>
                    if action_missing act
                    then (Inl (TransactionError
                                 ''action is required and must be a non-empty string'' None), s)
                    else (case add_script s (getBalanceKey userId) (getTransactionsKey userId)
                                 a (JSON_stringify (add_transaction e a act md)) (Date_now e) of
                            (newBalance, s') \<Rightarrow>
                              (Inr \<lparr>txId = generateTxId e, balance = newBalance,
                                    timestamp_res = Date_now e\<rparr>, s'))
                | _ \<Rightarrow> (Inl (TransactionError ''Add amount must be a finite number'' None), s)))"

subsection \<open>Reads\<close>

definition getBalance :: "store \<Rightarrow> string \<Rightarrow> error + rat" where
  "getBalance s userId =
     (case validateUserId userId of
        Some err \<Rightarrow> Inl err
      | None \<Rightarrow> Inr (case GET s (getBalanceKey userId) of None \<Rightarrow> 0 | Some b \<Rightarrow> b))"

text \<open>\<open>results.map(...)\<close> of \<open>getTransactions\<close>: the first member that does not parse throws.\<close>

fun parse_results :: "member list \<Rightarrow> error + Transaction list" where
  "parse_results [] = Inr []"
| "parse_results (m # ms) =
     (case JSON_parse m of
        None \<Rightarrow> Inl (TransactionError ''Failed to parse transaction data'' None)
      | Some tx \<Rightarrow>
          (case parse_results ms of Inl err \<Rightarrow> Inl err | Inr txs \<Rightarrow> Inr (tx # txs)))"

text \<open>
  \<open>getTransactions\<close> of client.ts; the first argument is \<open>Date.now()\<close>. The call is
  \<open>zrange(txsKey, min, max, {byScore: true, rev: true, offset: 0, count: limit})\<close>.
\<close>

definition getTransactions ::
  "int \<Rightarrow> store \<Rightarrow> string \<Rightarrow> TransactionQueryOptions \<Rightarrow> error + Transaction list" where
  "getTransactions now s userId options =
     (case validateUserId userId of
        Some err \<Rightarrow> Inl err
      | None \<Rightarrow>
          (let txsKey = getTransactionsKey userId;
               lmt = (case limit options of None \<Rightarrow> 50 | Some l \<Rightarrow> l);
               min_t = (case startTime options of None \<Rightarrow> 0 | Some t \<Rightarrow> t);
               max_t = (case endTime options of None \<Rightarrow> now | Some t \<Rightarrow> t);
               results = zrange_byscore_rev (zsets s txsKey) min_t max_t (Some (0, lmt))
           in parse_results results))"

text \<open>
  \<open>getTransactions\<close> of the built package (dist): the limit is validated and capped, a
  query without time bounds is by rank, a time-bounded one by score and then cut.
\<close>

definition MAX_RESULTS :: int where
  "MAX_RESULTS = 1000"

definition getTransactions_dist ::
  "int \<Rightarrow> store \<Rightarrow> string \<Rightarrow> TransactionQueryOptions \<Rightarrow> error + Transaction list" where
  "getTransactions_dist now s userId options =
     (case validateUserId userId of
        Some err \<Rightarrow> Inl err
      | None \<Rightarrow>
          (let txsKey = getTransactionsKey userId;
               lmt = (case limit options of None \<Rightarrow> 50 | Some l \<Rightarrow> l)
           in if lmt \<le> 0 then Inl (TransactionError ''limit must be a positive integer'' None)
              else (let effectiveLimit = min lmt MAX_RESULTS;
                        results =
                          (if startTime options = None \<and> endTime options = None
                           then zrange_rev (zsets s txsKey) 0 (effectiveLimit - 1)
                           else (let min_t = (case startTime options of None \<Rightarrow> 0 | Some t \<Rightarrow> t);
                                     max_t = (case endTime options of None \<Rightarrow> now | Some t \<Rightarrow> t);
                                     allResults = zrange_byscore_rev (zsets s txsKey) max_t min_t None
                                 in take (nat effectiveLimit) allResults))
                    in parse_results results)))"

subsection \<open>Reconciliation\<close>

text \<open>The \<open>reduce\<close> of \<open>calculateBalanceFromTransactions\<close>, from the running sum.\<close>

fun sum_transactions :: "string \<Rightarrow> rat \<Rightarrow> member list \<Rightarrow> error + rat" where
  "sum_transactions userId acc [] = Inr acc"
| "sum_transactions userId acc (m # ms) =
     (case JSON_parse m of
        None \<Rightarrow>
          Inl (BalanceVerificationError
                 ''Failed to parse transaction data during balance calculation'' userId 0 0)
      | Some tx \<Rightarrow> sum_transactions userId (acc + amount tx) ms)"

definition calculateBalanceFromTransactions :: "store \<Rightarrow> string \<Rightarrow> error + rat" where
  "calculateBalanceFromTransactions s userId =
     sum_transactions userId 0 (zrange (zsets s (getTransactionsKey userId)) 0 (- 1))"

definition verifyBalance :: "store \<Rightarrow> string \<Rightarrow> error + BalanceVerification" where
  "verifyBalance s userId =
     (case validateUserId userId of
        Some err \<Rightarrow> Inl err
      | None \<Rightarrow>
          (let cachedBalance = (case GET s (getBalanceKey userId) of None \<Rightarrow> 0 | Some b \<Rightarrow> b)
           in case calculateBalanceFromTransactions s userId of
                Inl err \<Rightarrow> Inl err
              | Inr calculatedBalance \<Rightarrow>
                  (let diff = cachedBalance - calculatedBalance
                   in Inr \<lparr>valid = (diff = 0), cached = cachedBalance,
                           calculated = calculatedBalance, difference = diff\<rparr>)))"

definition rebuildBalance :: "store \<Rightarrow> string \<Rightarrow> (error + rat) \<times> store" where
  "rebuildBalance s userId =
     (case validateUserId userId of
        Some err \<Rightarrow> (Inl err, s)
      | None \<Rightarrow>
          (case calculateBalanceFromTransactions s userId of
             Inl err \<Rightarrow> (Inl err, s)
           | Inr correctBalance \<Rightarrow>
               (let s1 = SET s (getBalanceKey userId) correctBalance
                in case verifyBalance s1 userId of
                     Inl err \<Rightarrow> (Inl err, s1)
                   | Inr verification \<Rightarrow>
                       if \<not> valid verification
                       then (Inl (BalanceVerificationError ''Balance rebuild failed for user''
                                    userId (cached verification) (calculated verification)), s1)
                       else (Inr correctBalance, s1))))"

section \<open>Sequences of calls\<close>

text \<open>
  One mutating call with its arguments, and a run of such calls, each with what it reads
  from its environment. A call that throws leaves the store as it returned it.
\<close>

datatype call =
    Initialize string "number option"
  | Deduct string number string "metadata option"
  | Add string number string "metadata option"

fun perform :: "CreditsSDK \<Rightarrow> call_env \<Rightarrow> store \<Rightarrow> call \<Rightarrow> (error + TransactionResult) \<times> store" where
  "perform sdk e s (Initialize userId credits) = initializeUser sdk e s userId credits"
| "perform sdk e s (Deduct userId amt act md) = deduct e s userId amt act md"
| "perform sdk e s (Add userId amt act md) = add e s userId amt act md"

fun run :: "CreditsSDK \<Rightarrow> store \<Rightarrow> (call_env \<times> call) list \<Rightarrow> store" where
  "run sdk s [] = s"
| "run sdk s ((e, c) # cs) = run sdk (snd (perform sdk e s c)) cs"

text \<open>The results of the calls of a run, in order.\<close>

fun results_of :: "CreditsSDK \<Rightarrow> store \<Rightarrow> (call_env \<times> call) list \<Rightarrow> (error + TransactionResult) list" where
  "results_of sdk s [] = []"
| "results_of sdk s ((e, c) # cs) =
     fst (perform sdk e s c) # results_of sdk (snd (perform sdk e s c)) cs"

text \<open>The store with no key.\<close>

definition empty_store :: store where
  "empty_store = \<lparr>strings = Map.empty, zsets = (\<lambda>k. [])\<rparr>"

text \<open>A run of \<open>initializeUser\<close> calls for one user, each with its starting balance.\<close>

definition initialize_calls :: "string \<Rightarrow> (call_env \<times> rat) list \<Rightarrow> (call_env \<times> call) list" where
  "initialize_calls userId exs = map (\<lambda>(e, x). (e, Initialize userId (Some (Fin x)))) exs"

text \<open>The number a key holds, an absent key read as zero.\<close>

definition balance_or_zero :: "store \<Rightarrow> string \<Rightarrow> rat" where
  "balance_or_zero s k = (case GET s k of None \<Rightarrow> 0 | Some b \<Rightarrow> b)"

text \<open>The transactions of a log, and the identifiers and amounts in it.\<close>

definition log_transactions :: "zset \<Rightarrow> Transaction list" where
  "log_transactions z = List.map_filter (\<lambda>e. JSON_parse (snd e)) z"

definition log_ids :: "zset \<Rightarrow> string set" where
  "log_ids z = set (map id_tx (log_transactions z))"

definition log_sum :: "zset \<Rightarrow> rat" where
  "log_sum z = sum_list (map amount (log_transactions z))"

text \<open>How many transactions of a log have the action \<open>user_initialized\<close>.\<close>

definition genesis_count :: "zset \<Rightarrow> nat" where
  "genesis_count z = length (filter (\<lambda>t. action t = ''user_initialized'') (log_transactions z))"

definition all_parseable :: "zset \<Rightarrow> bool" where
  "all_parseable z = list_all (\<lambda>e. JSON_parse (snd e) \<noteq> None) z"

section \<open>Example data\<close>

text \<open>
  A default client, the environment of the \<open>i\<close>-th call of an example run, and the
  store in which user \<open>u\<close> holds a balance and an empty log.
\<close>

definition sdk100 :: CreditsSDK where
  "sdk100 = new_CreditsSDK (Some (Fin 100))"

definition env_ex :: "nat \<Rightarrow> call_env" where
  "env_ex i = \<lparr>generateTxId = ''tx_'' @ show_nat i, Date_now = 1000 + int i,
              Date_now_after = 1001 + int i\<rparr>"

text \<open>
  A store whose cached balance for \<open>u\<close> (3) disagrees with the log of \<open>u\<close>: a genesis
  transaction of 100 and a deduction of 10.
\<close>

definition tampered_store :: store where
  "tampered_store =
     \<lparr>strings = [''balance:u'' \<mapsto> 3],
      zsets = (\<lambda>k. if k = ''txs:u''
                    then [(1003, TxJson (deduct_transaction (env_ex 3) 10 ''x'' None)),
                          (1002, TxJson (initialize_transaction (env_ex 2) 100))]
                    else [])\<rparr>"

text \<open>
  The scenario of the specification: a user starts at 100, 10 are deducted, 50 are added,
  and a deduction of 200 is refused.
\<close>

definition scenario :: "(call_env \<times> call) list" where
  "scenario =
     [(env_ex 2, Initialize ''u'' (Some (Fin 100))),
      (env_ex 3, Deduct ''u'' (Fin 10) ''x'' None),
      (env_ex 4, Add ''u'' (Fin 50) ''y'' None),
      (env_ex 5, Deduct ''u'' (Fin 200) ''x'' None)]"

text \<open>
  A store in which the log of \<open>u\<close> holds \<open>n\<close> additions of one credit, all written in
  the millisecond 7.
\<close>

definition bulk_log :: "nat \<Rightarrow> zset" where
  "bulk_log n =
     map (\<lambda>i. (7, TxJson \<lparr>id_tx = ''tx_'' @ show_nat i, amount = 1, action = ''x'',
                          metadata = None, timestamp = 7\<rparr>)) [0..<n]"

definition bulk_store :: "nat \<Rightarrow> store" where
  "bulk_store n =
     \<lparr>strings = [''balance:u'' \<mapsto> of_nat n],
      zsets = (\<lambda>k. if k = ''txs:u'' then bulk_log n else [])\<rparr>"

definition store_with_balance :: "rat \<Rightarrow> store" where
  "store_with_balance b = SET empty_store ''balance:u'' b"

section \<open>Digits, the regular expression and the number format\<close>

text \<open>
  Where the client tests \<open>Number.isFinite\<close>, the model distinguishes the constructor
  \<open>Fin\<close> from the three special values.
\<close>

lemma isFinite_iff: "isFinite x \<longleftrightarrow> (\<exists>a. x = Fin a)"
  by (cases x) simp_all

declare show_nat.simps [simp del] ndigits.simps [simp del]

lemma digit_char_numerals [simp]:
  "digit_char 0 = CHR ''0''" "digit_char 1 = CHR ''1''" "digit_char 2 = CHR ''2''"
  "digit_char 3 = CHR ''3''" "digit_char 4 = CHR ''4''" "digit_char 5 = CHR ''5''"
  "digit_char 6 = CHR ''6''" "digit_char 7 = CHR ''7''" "digit_char 8 = CHR ''8''"
  "digit_char 9 = CHR ''9''" "digit_char (Suc 0) = CHR ''1''"
  by code_simp+

lemma of_char_digit_char: "n < 10 \<Longrightarrow> of_char (digit_char n) = (48 + n :: nat)"
  by (simp add: digit_char_def)

lemma is_digit_digit_char: "n < 10 \<Longrightarrow> is_digit (digit_char n)"
  by (simp add: is_digit_def of_char_digit_char)

lemma digit_val_digit_char: "n < 10 \<Longrightarrow> digit_val (digit_char n) = n"
  by (simp add: digit_val_def of_char_digit_char)

lemma is_digit_not_space: "is_digit c \<Longrightarrow> \<not> is_space c"
  by (auto simp: is_digit_def is_space_def)

lemma show_nat_small [simp]: "n < 10 \<Longrightarrow> show_nat n = [digit_char n]"
  by (subst show_nat.simps) simp

lemma show_nat_digits: "list_all is_digit (show_nat n)"
  by (induction n rule: show_nat.induct) (subst show_nat.simps, simp add: is_digit_digit_char)

lemma show_nat_nonempty: "show_nat n \<noteq> []"
  by (subst show_nat.simps) simp

lemma digits_val_snoc: "digits_val (ds @ [c]) = 10 * digits_val ds + digit_val c"
  by (simp add: digits_val_def)

lemma digits_val_show_nat: "digits_val (show_nat n) = n"
proof (induction n rule: show_nat.induct)
  case (1 n)
  show ?case
  proof (cases "n < 10")
    case True
    then show ?thesis by (subst show_nat.simps) (simp add: digits_val_def digit_val_digit_char)
  next
    case False
    then show ?thesis
      using 1 by (subst show_nat.simps) (simp add: digits_val_snoc digit_val_digit_char)
  qed
qed


lemma takeWhile_all: "list_all P xs \<Longrightarrow> takeWhile P xs = xs"
  by (induction xs) auto

lemma dropWhile_all: "list_all P xs \<Longrightarrow> dropWhile P xs = []"
  by (induction xs) auto

lemma parseFloat_digits: "list_all is_digit ds \<Longrightarrow> parseFloat ds = of_nat (digits_val ds)"
  by (simp add: parseFloat_def takeWhile_all dropWhile_all)

lemma match_here_digits:
  assumes "list_all is_digit ds" "ds \<noteq> []"
  shows "match_here (''INSUFFICIENT_CREDITS:'' @ ds) = Some ds"
proof -
  obtain c t where ds: "ds = c # t" using assms(2) by (cases ds) auto
  then have "is_digit c" using assms(1) by simp
  then have "dropWhile is_space ds = ds"
    using ds by (simp add: is_digit_not_space)
  then show ?thesis
    using assms by (simp add: match_here_def takeWhile_all dropWhile_all)
qed

lemma regex_match_digits:
  assumes "list_all is_digit ds" "ds \<noteq> []"
  shows "regex_match (''INSUFFICIENT_CREDITS:'' @ ds) = Some ds"
  using match_here_digits [OF assms] by simp

lemma js_includes_reply [simp]: "js_includes (''INSUFFICIENT_CREDITS:'' @ r) ''INSUFFICIENT_CREDITS''"
  by simp

lemma ndigits_pos: "0 < ndigits n"
  by (subst ndigits.simps) simp

lemma ndigits_upper: "n < 10 ^ ndigits n"
proof (induction n rule: ndigits.induct)
  case (1 n)
  show ?case
  proof (cases "n < 10")
    case True
    then show ?thesis by (subst ndigits.simps) simp
  next
    case False
    then have "n div 10 < 10 ^ ndigits (n div 10)" using 1 by simp
    then have "n < 10 * 10 ^ ndigits (n div 10)" by linarith
    then show ?thesis using False by (subst ndigits.simps) simp
  qed
qed

lemma ndigits_le: "n < 10 ^ k \<Longrightarrow> 0 < k \<Longrightarrow> ndigits n \<le> k"
proof (induction n arbitrary: k rule: ndigits.induct)
  case (1 n)
  show ?case
  proof (cases "n < 10")
    case True
    then show ?thesis using 1(3) by (subst ndigits.simps) simp
  next
    case False
    then obtain j where k: "k = Suc j" using 1(3) by (cases k) auto
    have "0 < j"
    proof (rule ccontr)
      assume "\<not> 0 < j"
      then have "k = 1" using k by simp
      then show False using 1(2) False by simp
    qed
    moreover have "n div 10 < 10 ^ j" using 1(2) k by (simp add: less_mult_imp_div_less mult.commute)
    ultimately have "ndigits (n div 10) \<le> j" using 1(1) False by simp
    then show ?thesis using False k by (subst ndigits.simps) simp
  qed
qed


lemma round_half_even_of_nat: "round_half_even (of_nat j) = int j"
  by (simp add: round_half_even_def)

lemma strip_zeros_zeros: "strip_zeros (replicate k (CHR ''0'') @ ''0'') = []"
proof -
  have "dropWhile (\<lambda>c. c = CHR ''0'') (replicate j (CHR ''0'')) = []" for j
    by (induction j) auto
  then show ?thesis by (simp add: strip_zeros_def)
qed

lemma fmt_g14_nat:
  assumes "0 < n" "n < 10 ^ 14"
  shows "fmt_g14 (of_nat n) = show_nat n"
proof -
  define d where "d = ndigits n"
  have d1: "0 < d" by (simp add: d_def ndigits_pos)
  have d14: "d \<le> 14" using assms(2) by (simp add: d_def ndigits_le)
  have up: "n < 10 ^ d" by (simp add: d_def ndigits_upper)
  have X0: "dec_exponent (of_nat n) = int d - 1"
    using assms(1) by (simp add: dec_exponent_def d_def)
  have p: "pow10 (13 - (int d - 1)) = 10 ^ (14 - d)"
  proof -
    have "nat (13 - (int d - 1)) = 14 - d" using d14 by simp
    then show ?thesis using d14 by (simp add: pow10_def)
  qed
  have "(of_nat n :: rat) * 10 ^ (14 - d) = of_nat (n * 10 ^ (14 - d))" by simp
  then have m0: "nat (round_half_even (of_nat n * pow10 (13 - (int d - 1)))) = n * 10 ^ (14 - d)"
    by (simp only: p round_half_even_of_nat nat_int)
  have "n * 10 ^ (14 - d) < 10 ^ d * 10 ^ (14 - d)" using up by simp
  also have "\<dots> = 10 ^ 14" using d14 by (simp flip: power_add)
  finally have small: "\<not> (10 ^ 14 \<le> n * 10 ^ (14 - d))" by simp
  have sh: "nat (13 - (int d - 1)) = 14 - d" using d14 by simp
  have range: "- 4 \<le> int d - 1 \<and> int d - 1 < 14" using d1 d14 by simp
  have frac: "strip_zeros (pad_zeros (14 - d) (show_nat 0)) = []"
  proof -
    have "pad_zeros (14 - d) (show_nat 0) = replicate (14 - d - 1) (CHR ''0'') @ ''0''"
      by (simp add: pad_zeros_def)
    then show ?thesis by (simp only: strip_zeros_zeros)
  qed
  show ?thesis
    unfolding fmt_g14_def X0 Let_def m0 using small range frac sh by simp
qed

lemma lua_tostring_nat:
  assumes "n < 10 ^ 14"
  shows "lua_tostring (of_nat n) = show_nat n"
proof (cases "n = 0")
  case True
  then show ?thesis by (simp add: lua_tostring_def)
next
  case False
  then show ?thesis using assms by (simp add: lua_tostring_def fmt_g14_nat)
qed

section \<open>Properties of the pricing engine\<close>

lemma PRICING_CONFIG_cases:
  "PRICING_CONFIG a = Some c \<Longrightarrow>
     (a = ''video_generation'' \<and> c = \<lparr>rate = Fin 10, unit = ''second'',
         calculate = (\<lambda>seconds. Math_ceil (js_mul seconds (Fin 10)))\<rparr>) \<or>
     (a = ''training_job'' \<and> c = \<lparr>rate = Fin 1000, unit = ''gpu_hour'',
         calculate = (\<lambda>hours. Math_ceil (js_mul hours (Fin 1000)))\<rparr>)"
  by (auto simp: PRICING_CONFIG_def split: if_splits)





section \<open>The store and the validation\<close>

lemma GET_SET [simp]: "GET (SET s k v) k' = (if k' = k then Some v else GET s k')"
  by (simp add: GET_def SET_def)

lemma GET_ZADD [simp]: "GET (ZADD s k sc m) k' = GET s k'"
  by (simp add: GET_def ZADD_def)

lemma zsets_SET [simp]: "zsets (SET s k v) = zsets s"
  by (simp add: SET_def)

lemma zsets_ZADD [simp]:
  "zsets (ZADD s k sc m) k' = (if k' = k then zadd (zsets s k) sc m else zsets s k')"
  by (simp add: ZADD_def)

lemma GET_empty_store [simp]: "GET empty_store k = None"
  by (simp add: GET_def empty_store_def)

lemma zsets_empty_store [simp]: "zsets empty_store k = []"
  by (simp add: empty_store_def)

lemma getBalanceKey_inj [simp]: "getBalanceKey u = getBalanceKey v \<longleftrightarrow> u = v"
  by (simp add: getBalanceKey_def)

lemma getTransactionsKey_inj [simp]: "getTransactionsKey u = getTransactionsKey v \<longleftrightarrow> u = v"
  by (simp add: getTransactionsKey_def)

lemma validateUserId_u [simp]: "validateUserId ''u'' = None"
  by (simp add: validateUserId_def trim_def is_space_def)

lemma action_missing_x [simp]: "\<not> action_missing ''x''"
  by (simp add: action_missing_def trim_def is_space_def)

lemma action_missing_iff: "action_missing act \<longleftrightarrow> trim act = []"
  by (auto simp: action_missing_def trim_def)

lemma keys_u [simp]: "getBalanceKey ''u'' = ''balance:u''" "getTransactionsKey ''u'' = ''txs:u''"
  by (simp_all add: getBalanceKey_def getTransactionsKey_def)

section \<open>What each mutating call does\<close>

lemma add_valid:
  assumes "validateUserId userId = None" "0 < a" "\<not> action_missing act"
  shows "add e s userId (Fin a) act md =
           (Inr \<lparr>txId = generateTxId e,
                 balance = balance_or_zero s (getBalanceKey userId) + a,
                 timestamp_res = Date_now e\<rparr>,
            ZADD (SET s (getBalanceKey userId) (balance_or_zero s (getBalanceKey userId) + a))
              (getTransactionsKey userId) (Date_now e) (TxJson (add_transaction e a act md)))"
  using assms
  by (simp add: add_def add_script_def balance_or_zero_def JSON_stringify_def Let_def)

lemma deduct_sufficient:
  assumes "validateUserId userId = None" "0 < a" "\<not> action_missing act"
    and "a \<le> balance_or_zero s (getBalanceKey userId)"
  shows "deduct e s userId (Fin a) act md =
           (Inr \<lparr>txId = generateTxId e,
                 balance = balance_or_zero s (getBalanceKey userId) - a,
                 timestamp_res = Date_now e\<rparr>,
            ZADD (SET s (getBalanceKey userId) (balance_or_zero s (getBalanceKey userId) - a))
              (getTransactionsKey userId) (Date_now e) (TxJson (deduct_transaction e a act md)))"
  using assms
  by (simp add: deduct_def deduct_script_def balance_or_zero_def JSON_stringify_def Let_def)

lemma deduct_insufficient:
  assumes "validateUserId userId = None" "0 < a" "\<not> action_missing act"
    and "balance_or_zero s (getBalanceKey userId) < a"
  shows "deduct e s userId (Fin a) act md =
           (Inl (deduct_catch
                   (''INSUFFICIENT_CREDITS:'' @ lua_tostring (balance_or_zero s (getBalanceKey userId)))
                   a (generateTxId e)), s)"
  using assms
  by (simp add: deduct_def deduct_script_def balance_or_zero_def Let_def)

lemma initializeUser_absent:
  assumes "validateUserId userId = None" "0 \<le> x" "GET s (getBalanceKey userId) = None"
  shows "initializeUser sdk e s userId (Some (Fin x)) =
           (Inr \<lparr>txId = generateTxId e, balance = x, timestamp_res = Date_now e\<rparr>,
            ZADD (SET s (getBalanceKey userId) x)
              (getTransactionsKey userId) (Date_now e) (TxJson (initialize_transaction e x)))"
  using assms
  by (simp add: initializeUser_def initialize_script_def JSON_stringify_def)

lemma initializeUser_present:
  assumes "validateUserId userId = None" "0 \<le> x" "GET s (getBalanceKey userId) = Some b"
  shows "initializeUser sdk e s userId (Some (Fin x)) =
           (Inr \<lparr>txId = ''already_initialized'', balance = b,
                 timestamp_res = Date_now_after e\<rparr>, s)"
  using assms
  by (simp add: initializeUser_def initialize_script_def)

lemma env_ex_simps [simp]:
  "Date_now (env_ex i) = 1000 + int i" "Date_now_after (env_ex i) = 1001 + int i"
  "generateTxId (env_ex i) = ''tx_'' @ show_nat i"
  by (simp_all add: env_ex_def)

lemma balance_or_zero_simps [simp]:
  "GET s k = None \<Longrightarrow> balance_or_zero s k = 0"
  "GET s k = Some b \<Longrightarrow> balance_or_zero s k = b"
  by (simp_all add: balance_or_zero_def)

lemma store_with_balance_simps [simp]:
  "GET (store_with_balance b) k = (if k = ''balance:u'' then Some b else None)"
  "zsets (store_with_balance b) k = []"
  by (simp_all add: store_with_balance_def)

section \<open>Validation of deduct and add\<close>






section \<open>The log after a call\<close>

lemma zadd_fresh: "m \<notin> snd ` set z \<Longrightarrow> zadd z sc m = z @ [(sc, m)]"
proof -
  assume "m \<notin> snd ` set z"
  then have "filter (\<lambda>e. snd e \<noteq> m) z = z"
    by (induction z) auto
  then show ?thesis by (simp add: zadd_def)
qed

lemma log_transactions_append [simp]:
  "log_transactions (z @ z') = log_transactions z @ log_transactions z'"
  by (simp add: log_transactions_def List.map_filter_def)

lemma log_transactions_single [simp]:
  "log_transactions [(sc, TxJson tx)] = [tx]" "log_transactions [(sc, Raw r)] = []"
  "log_transactions [] = []"
  by (simp_all add: log_transactions_def map_filter_simps)

lemma TxJson_in_log: "TxJson tx \<in> snd ` set z \<Longrightarrow> id_tx tx \<in> log_ids z"
proof (induction z)
  case Nil
  then show ?case by simp
next
  case (Cons e z)
  then show ?case
    by (cases e) (auto simp: log_ids_def log_transactions_def map_filter_simps split: option.splits)
qed

lemma zadd_fresh_id:
  "id_tx tx \<notin> log_ids z \<Longrightarrow> zadd z sc (TxJson tx) = z @ [(sc, TxJson tx)]"
  using TxJson_in_log zadd_fresh by blast

section \<open>Amounts written to the log\<close>

text \<open>
  C4, as the code has it. A \<open>deduct\<close> that returns has written exactly one transaction,
  with the negative amount \<open>-amount\<close>; an \<open>add\<close> that returns has written exactly one,
  with the positive amount; an \<open>initializeUser\<close> that returns has either written nothing
  (the balance key was present) or written the genesis transaction, whose amount is the
  starting balance and is not negative, so it is zero when the starting balance is zero.
\<close>

theorem written_amounts:
  "(deduct e s userId amt act md = (Inr r, s') \<longrightarrow>
      (\<exists>a. amt = Fin a \<and> 0 < a \<and>
           s' = ZADD (SET s (getBalanceKey userId) (balance_or_zero s (getBalanceKey userId) - a))
                  (getTransactionsKey userId) (Date_now e) (TxJson (deduct_transaction e a act md)) \<and>
           amount (deduct_transaction e a act md) = - a \<and>
           amount (deduct_transaction e a act md) < 0)) \<and>
   (add e s userId amt act md = (Inr r, s') \<longrightarrow>
      (\<exists>a. amt = Fin a \<and> 0 < a \<and>
           s' = ZADD (SET s (getBalanceKey userId) (balance_or_zero s (getBalanceKey userId) + a))
                  (getTransactionsKey userId) (Date_now e) (TxJson (add_transaction e a act md)) \<and>
           amount (add_transaction e a act md) = a \<and>
           0 < amount (add_transaction e a act md))) \<and>
   (initializeUser sdk e s userId credits = (Inr r, s') \<longrightarrow>
      (GET s (getBalanceKey userId) \<noteq> None \<and> s' = s) \<or>
      (\<exists>x. GET s (getBalanceKey userId) = None \<and> 0 \<le> x \<and>
           (case credits of None \<Rightarrow> defaultCredits sdk | Some c \<Rightarrow> c) = Fin x \<and>
           s' = ZADD (SET s (getBalanceKey userId) x)
                  (getTransactionsKey userId) (Date_now e) (TxJson (initialize_transaction e x)) \<and>
           amount (initialize_transaction e x) = x))"
proof -
  have d: "\<exists>a. amt = Fin a \<and> 0 < a \<and>
           s' = ZADD (SET s (getBalanceKey userId) (balance_or_zero s (getBalanceKey userId) - a))
                  (getTransactionsKey userId) (Date_now e) (TxJson (deduct_transaction e a act md)) \<and>
           amount (deduct_transaction e a act md) = - a \<and>
           amount (deduct_transaction e a act md) < 0"
    if "deduct e s userId amt act md = (Inr r, s')"
    using that
    by (cases amt)
      (auto simp: deduct_def deduct_script_def balance_or_zero_def JSON_stringify_def Let_def
        deduct_transaction_def split: option.splits if_splits)
  have a: "\<exists>a. amt = Fin a \<and> 0 < a \<and>
           s' = ZADD (SET s (getBalanceKey userId) (balance_or_zero s (getBalanceKey userId) + a))
                  (getTransactionsKey userId) (Date_now e) (TxJson (add_transaction e a act md)) \<and>
           amount (add_transaction e a act md) = a \<and>
           0 < amount (add_transaction e a act md)"
    if "add e s userId amt act md = (Inr r, s')"
    using that
    by (cases amt)
      (auto simp: add_def add_script_def balance_or_zero_def JSON_stringify_def Let_def
        add_transaction_def split: option.splits if_splits)
  have i: "(GET s (getBalanceKey userId) \<noteq> None \<and> s' = s) \<or>
      (\<exists>x. GET s (getBalanceKey userId) = None \<and> 0 \<le> x \<and>
           (case credits of None \<Rightarrow> defaultCredits sdk | Some c \<Rightarrow> c) = Fin x \<and>
           s' = ZADD (SET s (getBalanceKey userId) x)
                  (getTransactionsKey userId) (Date_now e) (TxJson (initialize_transaction e x)) \<and>
           amount (initialize_transaction e x) = x)"
    if "initializeUser sdk e s userId credits = (Inr r, s')"
  proof (cases "case credits of None \<Rightarrow> defaultCredits sdk | Some c \<Rightarrow> c")
    case (Fin x)
    with that show ?thesis
      by (cases "GET s (getBalanceKey userId)")
        (auto simp: initializeUser_def initialize_script_def JSON_stringify_def Let_def
          initialize_transaction_def split: option.splits if_splits)
  next
    case PosInf
    with that show ?thesis
      by (auto simp: initializeUser_def Let_def split: option.splits if_splits)
  next
    case NegInf
    with that show ?thesis
      by (auto simp: initializeUser_def Let_def split: option.splits if_splits)
  next
    case NaN
    with that show ?thesis
      by (auto simp: initializeUser_def Let_def split: option.splits if_splits)
  qed
  show ?thesis using d a i by blast
qed

theorem written_amounts_witness:
  "deduct (env_ex 2) (store_with_balance 100) ''u'' (Fin 10) ''x'' None
     = (Inr \<lparr>txId = ''tx_2'', balance = 90, timestamp_res = 1002\<rparr>,
        ZADD (SET (store_with_balance 100) ''balance:u'' 90) ''txs:u'' 1002
          (TxJson (deduct_transaction (env_ex 2) 10 ''x'' None))) \<and>
   amount (deduct_transaction (env_ex 2) 10 ''x'' None) = - 10 \<and>
   add (env_ex 3) (store_with_balance 100) ''u'' (Fin 50) ''x'' None
     = (Inr \<lparr>txId = ''tx_3'', balance = 150, timestamp_res = 1003\<rparr>,
        ZADD (SET (store_with_balance 100) ''balance:u'' 150) ''txs:u'' 1003
          (TxJson (add_transaction (env_ex 3) 50 ''x'' None))) \<and>
   amount (add_transaction (env_ex 3) 50 ''x'' None) = 50 \<and>
   initializeUser sdk100 (env_ex 4) empty_store ''u'' None
     = (Inr \<lparr>txId = ''tx_4'', balance = 100, timestamp_res = 1004\<rparr>,
        ZADD (SET empty_store ''balance:u'' 100) ''txs:u'' 1004
          (TxJson (initialize_transaction (env_ex 4) 100))) \<and>
   amount (initialize_transaction (env_ex 4) 100) = 100"
proof -
  have d: "deduct (env_ex 2) (store_with_balance 100) ''u'' (Fin 10) ''x'' None
     = (Inr \<lparr>txId = ''tx_2'', balance = 90, timestamp_res = 1002\<rparr>,
        ZADD (SET (store_with_balance 100) ''balance:u'' 90) ''txs:u'' 1002
          (TxJson (deduct_transaction (env_ex 2) 10 ''x'' None)))"
    by (simp add: deduct_sufficient)
  have a: "add (env_ex 3) (store_with_balance 100) ''u'' (Fin 50) ''x'' None
     = (Inr \<lparr>txId = ''tx_3'', balance = 150, timestamp_res = 1003\<rparr>,
        ZADD (SET (store_with_balance 100) ''balance:u'' 150) ''txs:u'' 1003
          (TxJson (add_transaction (env_ex 3) 50 ''x'' None)))"
    by (simp add: add_valid)
  have i: "initializeUser sdk100 (env_ex 4) empty_store ''u'' None
     = (Inr \<lparr>txId = ''tx_4'', balance = 100, timestamp_res = 1004\<rparr>,
        ZADD (SET empty_store ''balance:u'' 100) ''txs:u'' 1004
          (TxJson (initialize_transaction (env_ex 4) 100)))"
    by (simp add: initializeUser_def initialize_script_def JSON_stringify_def sdk100_def
        new_CreditsSDK_def)
  from written_amounts [of "env_ex 2" "store_with_balance 100" "''u''" "Fin 10" "''x''" None
      "\<lparr>txId = ''tx_2'', balance = 90, timestamp_res = 1002\<rparr>"
      "ZADD (SET (store_with_balance 100) ''balance:u'' 90) ''txs:u'' 1002
          (TxJson (deduct_transaction (env_ex 2) 10 ''x'' None))"] d
  have "amount (deduct_transaction (env_ex 2) 10 ''x'' None) = - 10"
    by auto
  moreover
  from written_amounts [of "env_ex 3" "store_with_balance 100" "''u''" "Fin 50" "''x''" None
      "\<lparr>txId = ''tx_3'', balance = 150, timestamp_res = 1003\<rparr>"
      "ZADD (SET (store_with_balance 100) ''balance:u'' 150) ''txs:u'' 1003
          (TxJson (add_transaction (env_ex 3) 50 ''x'' None))"] a
  have "amount (add_transaction (env_ex 3) 50 ''x'' None) = 50"
    by auto
  moreover
  from written_amounts [where sdk = sdk100 and e = "env_ex 4" and s = empty_store
      and userId = "''u''" and credits = None
      and r = "\<lparr>txId = ''tx_4'', balance = 100, timestamp_res = 1004\<rparr>"
      and s' = "ZADD (SET empty_store ''balance:u'' 100) ''txs:u'' 1004
          (TxJson (initialize_transaction (env_ex 4) 100))"] i
  have "amount (initialize_transaction (env_ex 4) 100) = 100"
    by (auto simp: initialize_transaction_def)
  ultimately show ?thesis using d a i by simp
qed

text \<open>
  C4 as stated fails: \<open>initializeUser(u, 0)\<close> on a new user is accepted and writes a
  genesis transaction whose amount is zero.
\<close>

theorem zero_genesis_counterexample:
  "fst (initializeUser sdk100 (env_ex 2) empty_store ''u'' (Some (Fin 0)))
     = Inr \<lparr>txId = ''tx_2'', balance = 0, timestamp_res = 1002\<rparr> \<and>
   zsets (snd (initializeUser sdk100 (env_ex 2) empty_store ''u'' (Some (Fin 0)))) ''txs:u''
     = [(1002, TxJson (initialize_transaction (env_ex 2) 0))] \<and>
   amount (initialize_transaction (env_ex 2) 0) = 0"
  by (simp add: initializeUser_absent zadd_def initialize_transaction_def)


section \<open>Initialisation happens once\<close>

lemma initialize_calls_simps [simp]:
  "initialize_calls userId [] = []"
  "initialize_calls userId ((e, x) # exs) =
     (e, Initialize userId (Some (Fin x))) # initialize_calls userId exs"
  by (simp_all add: initialize_calls_def)

lemma run_initialize_present:
  assumes "validateUserId userId = None" "GET s (getBalanceKey userId) = Some b"
  shows "list_all (\<lambda>(e, y). 0 \<le> y) exs \<Longrightarrow> run sdk s (initialize_calls userId exs) = s"
  using assms by (induction exs) (auto simp: initializeUser_present)

lemma results_initialize_present:
  assumes "validateUserId userId = None" "GET s (getBalanceKey userId) = Some b"
  shows "list_all (\<lambda>(e, y). 0 \<le> y) exs \<Longrightarrow>
     results_of sdk s (initialize_calls userId exs) =
       map (\<lambda>(e, y). Inr \<lparr>txId = ''already_initialized'', balance = b,
                            timestamp_res = Date_now_after e\<rparr>) exs"
  using assms by (induction exs) (auto simp: initializeUser_present)




section \<open>deduct\<close>

lemma parseFloat_zero [simp]: "parseFloat ''0'' = 0"
  by code_simp

lemma deduct_catch_insufficient:
  "js_includes message ''INSUFFICIENT_CREDITS'' \<Longrightarrow>
     deduct_catch message a txid =
       InsufficientCreditsError a
         (parseFloat (case regex_match message of None \<Rightarrow> ''0'' | Some g \<Rightarrow> g))"
  by (simp add: deduct_catch_def)

lemma deduct_reports_small_balance:
  assumes "validateUserId userId = None" "0 < a" "\<not> action_missing act"
    and "balance_or_zero s (getBalanceKey userId) = of_nat n" "n < 10 ^ 14" "of_nat n < a"
  shows "deduct e s userId (Fin a) act md = (Inl (InsufficientCreditsError a (of_nat n)), s)"
proof -
  have "regex_match (''INSUFFICIENT_CREDITS:'' @ lua_tostring (of_nat n)) = Some (show_nat n)"
    using assms(5) regex_match_digits [OF show_nat_digits show_nat_nonempty, of n]
    by (simp only: lua_tostring_nat)
  moreover have "parseFloat (show_nat n) = of_nat n"
    by (simp add: parseFloat_digits show_nat_digits digits_val_show_nat)
  ultimately have "deduct_catch (''INSUFFICIENT_CREDITS:'' @ lua_tostring (of_nat n)) a (generateTxId e)
      = InsufficientCreditsError a (of_nat n)"
    by (simp add: deduct_catch_insufficient)
  then show ?thesis
    using deduct_insufficient [OF assms(1-3), of s e md] assms(4,6) by simp
qed



lemma lua_tostring_minus_5: "lua_tostring (- 5) = ''-5''"
  by code_simp

lemma regex_match_minus_5: "regex_match ''INSUFFICIENT_CREDITS:-5'' = None"
  by code_simp


text \<open>
  A reply text can also parse to a number that is not the balance: Lua writes the balance
  \<open>10^14\<close> as \<open>1e+14\<close>, of which the regular expression captures the leading \<open>1\<close>.
\<close>

lemma lua_tostring_large: "lua_tostring (10 ^ 14) = ''1e+14''"
  by code_simp

lemma regex_match_large: "regex_match ''INSUFFICIENT_CREDITS:1e+14'' = Some ''1''"
  by code_simp

lemma deduct_large_balance:
  "deduct (env_ex 2) (store_with_balance (10 ^ 14)) ''u'' (Fin (10 ^ 15)) ''x'' None =
     (Inl (InsufficientCreditsError (10 ^ 15) 1), store_with_balance (10 ^ 14))"
proof -
  have "deduct (env_ex 2) (store_with_balance (10 ^ 14)) ''u'' (Fin (10 ^ 15)) ''x'' None =
      (Inl (deduct_catch (''INSUFFICIENT_CREDITS:'' @ lua_tostring (10 ^ 14)) (10 ^ 15)
              (generateTxId (env_ex 2))), store_with_balance (10 ^ 14))"
    using deduct_insufficient [of "''u''" "10 ^ 15" "''x''" "store_with_balance (10 ^ 14)" "env_ex 2" None]
    by simp
  moreover have "deduct_catch (''INSUFFICIENT_CREDITS:'' @ lua_tostring (10 ^ 14)) (10 ^ 15)
      (generateTxId (env_ex 2)) = InsufficientCreditsError (10 ^ 15) 1"
    by code_simp
  ultimately show ?thesis by simp
qed

text \<open>
  C10. Whenever the exception that \<open>deduct\<close> catches mentions \<open>INSUFFICIENT_CREDITS\<close>, the
  error thrown is an \<open>InsufficientCreditsError\<close> whose \<open>available\<close> field is a number; when
  the regular expression finds no balance in the message, that number is 0. So a
  \<open>deduct\<close> with valid arguments whose script replies with a balance text that does not
  parse reports \<open>available = 0\<close>.
\<close>

theorem deduct_unparsed_balance:
  "(js_includes message ''INSUFFICIENT_CREDITS'' \<longrightarrow>
      (\<exists>v. deduct_catch message a txid = InsufficientCreditsError a v) \<and>
      (regex_match message = None \<longrightarrow>
         deduct_catch message a txid = InsufficientCreditsError a 0)) \<and>
   (validateUserId userId = None \<and> 0 < a \<and> \<not> action_missing act \<and>
    balance_or_zero s (getBalanceKey userId) < a \<and>
    regex_match (''INSUFFICIENT_CREDITS:'' @ lua_tostring (balance_or_zero s (getBalanceKey userId)))
      = None \<longrightarrow>
      deduct e s userId (Fin a) act md = (Inl (InsufficientCreditsError a 0), s))"
proof (intro conjI impI)
  assume inc: "js_includes message ''INSUFFICIENT_CREDITS''"
  show "\<exists>v. deduct_catch message a txid = InsufficientCreditsError a v"
    using inc by (simp add: deduct_catch_insufficient)
  show "deduct_catch message a txid = InsufficientCreditsError a 0"
    if "regex_match message = None"
    using inc that by (simp add: deduct_catch_insufficient)
next
  assume h: "validateUserId userId = None \<and> 0 < a \<and> \<not> action_missing act \<and>
    balance_or_zero s (getBalanceKey userId) < a \<and>
    regex_match (''INSUFFICIENT_CREDITS:'' @ lua_tostring (balance_or_zero s (getBalanceKey userId)))
      = None"
  then have "deduct e s userId (Fin a) act md =
      (Inl (deduct_catch
              (''INSUFFICIENT_CREDITS:'' @ lua_tostring (balance_or_zero s (getBalanceKey userId)))
              a (generateTxId e)), s)"
    by (simp add: deduct_insufficient)
  then show "deduct e s userId (Fin a) act md = (Inl (InsufficientCreditsError a 0), s)"
    using h by (simp add: deduct_catch_insufficient)
qed

lemma lua_tostring_minus_half: "lua_tostring (- (1 / 2)) = ''-0.5''"
  by code_simp

lemma regex_match_minus_half: "regex_match ''INSUFFICIENT_CREDITS:-0.5'' = None"
  by code_simp

lemma regex_match_nan: "regex_match ''ERR INSUFFICIENT_CREDITS:nan'' = None"
  by code_simp

lemma js_includes_nan: "js_includes ''ERR INSUFFICIENT_CREDITS:nan'' ''INSUFFICIENT_CREDITS''"
  by code_simp

theorem deduct_unparsed_balance_witness:
  "js_includes ''ERR INSUFFICIENT_CREDITS:nan'' ''INSUFFICIENT_CREDITS'' \<and>
   regex_match ''ERR INSUFFICIENT_CREDITS:nan'' = None \<and>
   deduct_catch ''ERR INSUFFICIENT_CREDITS:nan'' 30 ''tx_3'' = InsufficientCreditsError 30 0 \<and>
   balance_or_zero (store_with_balance (- (1 / 2))) (getBalanceKey ''u'') < 30 \<and>
   deduct (env_ex 3) (store_with_balance (- (1 / 2))) ''u'' (Fin 30) ''x'' None =
     (Inl (InsufficientCreditsError 30 0), store_with_balance (- (1 / 2)))"
proof -
  have b: "balance_or_zero (store_with_balance (- (1 / 2))) (getBalanceKey ''u'') = - (1 / 2)"
    by simp
  have h: "validateUserId ''u'' = None \<and> (0::rat) < 30 \<and> \<not> action_missing ''x'' \<and>
      balance_or_zero (store_with_balance (- (1 / 2))) (getBalanceKey ''u'') < 30 \<and>
      regex_match (''INSUFFICIENT_CREDITS:'' @
          lua_tostring (balance_or_zero (store_with_balance (- (1 / 2))) (getBalanceKey ''u''))) = None"
    using regex_match_minus_half by (simp only: b lua_tostring_minus_half) simp
  note t = deduct_unparsed_balance [of "''ERR INSUFFICIENT_CREDITS:nan''" 30 "''tx_3''" "''u''" "''x''"
      "store_with_balance (- (1 / 2))" "env_ex 3" None]
  have "deduct_catch ''ERR INSUFFICIENT_CREDITS:nan'' 30 ''tx_3'' = InsufficientCreditsError 30 0"
    using t [THEN conjunct1, THEN mp, OF js_includes_nan, THEN conjunct2, THEN mp, OF regex_match_nan] .
  moreover have "deduct (env_ex 3) (store_with_balance (- (1 / 2))) ''u'' (Fin 30) ''x'' None =
     (Inl (InsufficientCreditsError 30 0), store_with_balance (- (1 / 2)))"
    using t [THEN conjunct2, THEN mp, OF h] .
  ultimately show ?thesis
    using js_includes_nan regex_match_nan h by simp
qed


section \<open>Reconciliation\<close>

text \<open>What a log entry adds to the sum of the log.\<close>

lemma log_sum_Nil [simp]: "log_sum [] = 0"
  by (simp add: log_sum_def)

lemma log_sum_Cons:
  "log_sum (e # z) = (case JSON_parse (snd e) of None \<Rightarrow> 0 | Some tx \<Rightarrow> amount tx) + log_sum z"
  by (simp add: log_sum_def log_transactions_def map_filter_simps split: option.splits)

lemma log_sum_append [simp]: "log_sum (z @ z') = log_sum z + log_sum z'"
  by (induction z) (simp_all add: log_sum_Cons)

lemma log_sum_insort: "log_sum (insort_key k e z) = log_sum [e] + log_sum z"
  by (induction z) (simp_all add: log_sum_Cons)

lemma log_sum_sort_key: "log_sum (sort_key k z) = log_sum z"
  by (induction z) (simp_all add: log_sum_insort log_sum_Cons)

lemma all_parseable_sort_key: "all_parseable (sort_key k z) = all_parseable z"
  by (simp add: all_parseable_def list_all_iff)

lemma all_parseable_simps [simp]:
  "all_parseable []"
  "all_parseable (e # z) \<longleftrightarrow> JSON_parse (snd e) \<noteq> None \<and> all_parseable z"
  "all_parseable (z @ z') \<longleftrightarrow> all_parseable z \<and> all_parseable z'"
  by (simp_all add: all_parseable_def)

lemma sum_transactions_parseable:
  "all_parseable z \<Longrightarrow> sum_transactions userId acc (map snd z) = Inr (acc + log_sum z)"
  by (induction z arbitrary: acc) (auto simp: log_sum_Cons)

lemma sum_transactions_unparseable:
  "\<not> all_parseable z \<Longrightarrow>
     sum_transactions userId acc (map snd z) =
       Inl (BalanceVerificationError
              ''Failed to parse transaction data during balance calculation'' userId 0 0)"
  by (induction z arbitrary: acc) (auto split: option.splits)

lemma zrange_all: "zrange z 0 (- 1) = map snd (sort_key fst z)"
  by (cases "sort_key fst z") (simp_all add: zrange_def Let_def)

lemma calculateBalance_parseable:
  "all_parseable (zsets s (getTransactionsKey userId)) \<Longrightarrow>
     calculateBalanceFromTransactions s userId = Inr (log_sum (zsets s (getTransactionsKey userId)))"
  using sum_transactions_parseable [of "sort_key fst (zsets s (getTransactionsKey userId))" userId 0]
  by (simp add: calculateBalanceFromTransactions_def zrange_all all_parseable_sort_key log_sum_sort_key)

lemma verifyBalance_parseable:
  assumes "validateUserId userId = None" "all_parseable (zsets s (getTransactionsKey userId))"
  shows "verifyBalance s userId =
     Inr \<lparr>valid = (balance_or_zero s (getBalanceKey userId) = log_sum (zsets s (getTransactionsKey userId))),
          cached = balance_or_zero s (getBalanceKey userId),
          calculated = log_sum (zsets s (getTransactionsKey userId)),
          difference = balance_or_zero s (getBalanceKey userId)
                       - log_sum (zsets s (getTransactionsKey userId))\<rparr>"
  using assms
  by (simp add: verifyBalance_def calculateBalance_parseable balance_or_zero_def Let_def)

lemma rebuildBalance_unparseable:
  assumes "validateUserId userId = None" "\<not> all_parseable (zsets s (getTransactionsKey userId))"
  shows "rebuildBalance s userId =
     (Inl (BalanceVerificationError
             ''Failed to parse transaction data during balance calculation'' userId 0 0), s)"
proof -
  have "\<not> all_parseable (sort_key fst (zsets s (getTransactionsKey userId)))"
    using assms(2) by (simp add: all_parseable_sort_key)
  then have "calculateBalanceFromTransactions s userId =
      Inl (BalanceVerificationError
             ''Failed to parse transaction data during balance calculation'' userId 0 0)"
    by (simp add: calculateBalanceFromTransactions_def zrange_all sum_transactions_unparseable)
  then show ?thesis
    using assms(1) by (simp add: rebuildBalance_def)
qed


lemma tampered_store_simps [simp]:
  "GET tampered_store ''balance:u'' = Some 3"
  "zsets tampered_store ''txs:u'' =
     [(1003, TxJson (deduct_transaction (env_ex 3) 10 ''x'' None)),
      (1002, TxJson (initialize_transaction (env_ex 2) 100))]"
  by (simp_all add: tampered_store_def GET_def)



section \<open>The balance is the sum of the log\<close>

text \<open>The store after a call: unchanged, or one balance set and one log entry given.\<close>

lemma deduct_store:
  "snd (deduct e s v amt act md) = s \<or>
   (\<exists>a. snd (deduct e s v amt act md) =
      ZADD (SET s (getBalanceKey v) (balance_or_zero s (getBalanceKey v) - a))
        (getTransactionsKey v) (Date_now e) (TxJson (deduct_transaction e a act md)))"
proof (cases "validateUserId v")
  case (Some err)
  then show ?thesis by (simp add: deduct_def)
next
  case None
  show ?thesis
  proof (cases amt)
    case (Fin a)
    show ?thesis
    proof (cases "0 < a \<and> \<not> action_missing act")
      case True
      show ?thesis
      proof (cases "a \<le> balance_or_zero s (getBalanceKey v)")
        case True
        with \<open>0 < a \<and> \<not> action_missing act\<close> None Fin show ?thesis
          by (simp add: deduct_sufficient) blast
      next
        case False
        with \<open>0 < a \<and> \<not> action_missing act\<close> None Fin show ?thesis
          by (simp add: deduct_insufficient)
      qed
    next
      case False
      with None Fin show ?thesis by (auto simp: deduct_def)
    qed
  qed (simp_all add: None deduct_def)
qed

lemma add_store:
  "snd (add e s v amt act md) = s \<or>
   (\<exists>a. snd (add e s v amt act md) =
      ZADD (SET s (getBalanceKey v) (balance_or_zero s (getBalanceKey v) + a))
        (getTransactionsKey v) (Date_now e) (TxJson (add_transaction e a act md)))"
proof (cases "validateUserId v")
  case (Some err)
  then show ?thesis by (simp add: add_def)
next
  case None
  show ?thesis
  proof (cases amt)
    case (Fin a)
    show ?thesis
    proof (cases "0 < a \<and> \<not> action_missing act")
      case True
      with None Fin show ?thesis
        by (simp add: add_valid) blast
    next
      case False
      with None Fin show ?thesis by (auto simp: add_def)
    qed
  qed (simp_all add: None add_def)
qed

lemma initializeUser_store:
  "snd (initializeUser sdk e s v credits) = s \<or>
   (\<exists>x. GET s (getBalanceKey v) = None \<and>
      snd (initializeUser sdk e s v credits) =
        ZADD (SET s (getBalanceKey v) x)
          (getTransactionsKey v) (Date_now e) (TxJson (initialize_transaction e x)))"
proof (cases "validateUserId v")
  case (Some err)
  then show ?thesis by (simp add: initializeUser_def)
next
  case None
  show ?thesis
  proof (cases "case credits of None \<Rightarrow> defaultCredits sdk | Some c \<Rightarrow> c")
    case (Fin x)
    show ?thesis
    proof (cases "GET s (getBalanceKey v)")
      case (Some b)
      with None Fin show ?thesis
        by (simp add: initializeUser_def initialize_script_def)
    next
      case absent: None
      show ?thesis
      proof (cases "x < 0")
        case True
        with None Fin show ?thesis by (simp add: initializeUser_def)
      next
        case False
        with None Fin absent show ?thesis
          by (simp add: initializeUser_def initialize_script_def JSON_stringify_def) blast
      qed
    qed
  qed (simp_all add: None initializeUser_def)
qed

lemma perform_effect:
  "snd (perform sdk e s c) = s \<or>
   (\<exists>v tx. id_tx tx = generateTxId e \<and>
      snd (perform sdk e s c) =
        ZADD (SET s (getBalanceKey v) (balance_or_zero s (getBalanceKey v) + amount tx))
          (getTransactionsKey v) (Date_now e) (TxJson tx))"
proof (cases c)
  case (Initialize v credits)
  from initializeUser_store [of sdk e s v credits] show ?thesis
  proof
    assume "snd (initializeUser sdk e s v credits) = s"
    then show ?thesis by (simp add: Initialize)
  next
    assume "\<exists>x. GET s (getBalanceKey v) = None \<and>
      snd (initializeUser sdk e s v credits) =
        ZADD (SET s (getBalanceKey v) x)
          (getTransactionsKey v) (Date_now e) (TxJson (initialize_transaction e x))"
    then obtain x where x: "GET s (getBalanceKey v) = None"
      "snd (initializeUser sdk e s v credits) =
        ZADD (SET s (getBalanceKey v) x)
          (getTransactionsKey v) (Date_now e) (TxJson (initialize_transaction e x))"
      by blast
    have "id_tx (initialize_transaction e x) = generateTxId e \<and>
      snd (perform sdk e s c) =
        ZADD (SET s (getBalanceKey v)
               (balance_or_zero s (getBalanceKey v) + amount (initialize_transaction e x)))
          (getTransactionsKey v) (Date_now e) (TxJson (initialize_transaction e x))"
      using x by (simp add: Initialize initialize_transaction_def)
    then show ?thesis by blast
  qed
next
  case (Deduct v amt act md)
  from deduct_store [of e s v amt act md] show ?thesis
  proof
    assume "snd (deduct e s v amt act md) = s"
    then show ?thesis by (simp add: Deduct)
  next
    assume "\<exists>a. snd (deduct e s v amt act md) =
      ZADD (SET s (getBalanceKey v) (balance_or_zero s (getBalanceKey v) - a))
        (getTransactionsKey v) (Date_now e) (TxJson (deduct_transaction e a act md))"
    then obtain a where a: "snd (deduct e s v amt act md) =
      ZADD (SET s (getBalanceKey v) (balance_or_zero s (getBalanceKey v) - a))
        (getTransactionsKey v) (Date_now e) (TxJson (deduct_transaction e a act md))"
      by blast
    have "id_tx (deduct_transaction e a act md) = generateTxId e \<and>
      snd (perform sdk e s c) =
        ZADD (SET s (getBalanceKey v)
               (balance_or_zero s (getBalanceKey v) + amount (deduct_transaction e a act md)))
          (getTransactionsKey v) (Date_now e) (TxJson (deduct_transaction e a act md))"
      using a by (simp add: Deduct deduct_transaction_def)
    then show ?thesis by blast
  qed
next
  case (Add v amt act md)
  from add_store [of e s v amt act md] show ?thesis
  proof
    assume "snd (add e s v amt act md) = s"
    then show ?thesis by (simp add: Add)
  next
    assume "\<exists>a. snd (add e s v amt act md) =
      ZADD (SET s (getBalanceKey v) (balance_or_zero s (getBalanceKey v) + a))
        (getTransactionsKey v) (Date_now e) (TxJson (add_transaction e a act md))"
    then obtain a where a: "snd (add e s v amt act md) =
      ZADD (SET s (getBalanceKey v) (balance_or_zero s (getBalanceKey v) + a))
        (getTransactionsKey v) (Date_now e) (TxJson (add_transaction e a act md))"
      by blast
    have "id_tx (add_transaction e a act md) = generateTxId e \<and>
      snd (perform sdk e s c) =
        ZADD (SET s (getBalanceKey v)
               (balance_or_zero s (getBalanceKey v) + amount (add_transaction e a act md)))
          (getTransactionsKey v) (Date_now e) (TxJson (add_transaction e a act md))"
      using a by (simp add: Add add_transaction_def)
    then show ?thesis by blast
  qed
qed


lemma balance_or_zero_ZADD_SET [simp]:
  "balance_or_zero (ZADD (SET s k v) k2 sc m) k' = (if k' = k then v else balance_or_zero s k')"
  by (simp add: balance_or_zero_def)

lemma log_ids_append [simp]: "log_ids (z @ z') = log_ids z \<union> log_ids z'"
  by (simp add: log_ids_def)

lemma log_ids_single [simp]: "log_ids [(sc, TxJson tx)] = {id_tx tx}"
  by (simp add: log_ids_def)

lemma log_sum_single [simp]: "log_sum [(sc, TxJson tx)] = amount tx"
  by (simp add: log_sum_Cons)

lemma perform_invariant:
  assumes "balance_or_zero s (getBalanceKey u) = log_sum (zsets s (getTransactionsKey u))"
    and "all_parseable (zsets s (getTransactionsKey u))"
    and "generateTxId e \<notin> log_ids (zsets s (getTransactionsKey u))"
  shows "balance_or_zero (snd (perform sdk e s c)) (getBalanceKey u) =
           log_sum (zsets (snd (perform sdk e s c)) (getTransactionsKey u)) \<and>
         all_parseable (zsets (snd (perform sdk e s c)) (getTransactionsKey u)) \<and>
         log_ids (zsets (snd (perform sdk e s c)) (getTransactionsKey u))
           \<subseteq> insert (generateTxId e) (log_ids (zsets s (getTransactionsKey u)))"
  using perform_effect [of sdk e s c]
proof
  assume "snd (perform sdk e s c) = s"
  then show ?thesis using assms by auto
next
  assume "\<exists>v tx. id_tx tx = generateTxId e \<and>
      snd (perform sdk e s c) =
        ZADD (SET s (getBalanceKey v) (balance_or_zero s (getBalanceKey v) + amount tx))
          (getTransactionsKey v) (Date_now e) (TxJson tx)"
  then obtain v tx where tx: "id_tx tx = generateTxId e"
    and s': "snd (perform sdk e s c) =
        ZADD (SET s (getBalanceKey v) (balance_or_zero s (getBalanceKey v) + amount tx))
          (getTransactionsKey v) (Date_now e) (TxJson tx)"
    by blast
  show ?thesis
  proof (cases "v = u")
    case True
    have "zadd (zsets s (getTransactionsKey u)) (Date_now e) (TxJson tx) =
        zsets s (getTransactionsKey u) @ [(Date_now e, TxJson tx)]"
      using assms(3) tx by (simp add: zadd_fresh_id)
    then show ?thesis
      using assms(1,2) tx True by (simp add: s')
  next
    case False
    then show ?thesis
      using assms by (auto simp: s')
  qed
qed

lemma run_invariant:
  "balance_or_zero s (getBalanceKey u) = log_sum (zsets s (getTransactionsKey u)) \<Longrightarrow>
   all_parseable (zsets s (getTransactionsKey u)) \<Longrightarrow>
   distinct (map (\<lambda>ec. generateTxId (fst ec)) cs) \<Longrightarrow>
   log_ids (zsets s (getTransactionsKey u)) \<inter> set (map (\<lambda>ec. generateTxId (fst ec)) cs) = {} \<Longrightarrow>
   balance_or_zero (run sdk s cs) (getBalanceKey u) =
     log_sum (zsets (run sdk s cs) (getTransactionsKey u)) \<and>
   all_parseable (zsets (run sdk s cs) (getTransactionsKey u))"
proof (induction cs arbitrary: s)
  case Nil
  then show ?case by simp
next
  case (Cons ec cs)
  obtain e c where ec: "ec = (e, c)" by (cases ec)
  have fresh: "generateTxId e \<notin> log_ids (zsets s (getTransactionsKey u))"
    using Cons.prems(4) by (simp add: ec)
  note step = perform_invariant [OF Cons.prems(1,2) fresh, of sdk c]
  have d: "distinct (map (\<lambda>ec. generateTxId (fst ec)) cs)"
    and new: "generateTxId e \<notin> set (map (\<lambda>ec. generateTxId (fst ec)) cs)"
    using Cons.prems(3) by (simp_all add: ec)
  have old: "log_ids (zsets s (getTransactionsKey u)) \<inter> set (map (\<lambda>ec. generateTxId (fst ec)) cs) = {}"
    using Cons.prems(4) by (simp add: ec)
  have sub: "log_ids (zsets (snd (perform sdk e s c)) (getTransactionsKey u))
      \<subseteq> insert (generateTxId e) (log_ids (zsets s (getTransactionsKey u)))"
    using step by blast
  have "log_ids (zsets (snd (perform sdk e s c)) (getTransactionsKey u))
      \<inter> set (map (\<lambda>ec. generateTxId (fst ec)) cs) = {}"
    using sub new old by blast
  then show ?case
    using Cons.IH [of "snd (perform sdk e s c)"] step d by (simp add: ec)
qed


lemma action_missing_y [simp]: "\<not> action_missing ''y''"
  by (simp add: action_missing_def trim_def is_space_def)

lemma scenario_run:
  "GET (run sdk100 empty_store scenario) ''balance:u'' = Some 140 \<and>
   results_of sdk100 empty_store scenario =
     [Inr \<lparr>txId = ''tx_2'', balance = 100, timestamp_res = 1002\<rparr>,
      Inr \<lparr>txId = ''tx_3'', balance = 90, timestamp_res = 1003\<rparr>,
      Inr \<lparr>txId = ''tx_4'', balance = 140, timestamp_res = 1004\<rparr>,
      Inl (InsufficientCreditsError 200 140)]"
proof -
  define s1 where "s1 = snd (initializeUser sdk100 (env_ex 2) empty_store ''u'' (Some (Fin 100)))"
  define s2 where "s2 = snd (deduct (env_ex 3) s1 ''u'' (Fin 10) ''x'' None)"
  define s3 where "s3 = snd (add (env_ex 4) s2 ''u'' (Fin 50) ''y'' None)"
  have i: "initializeUser sdk100 (env_ex 2) empty_store ''u'' (Some (Fin 100)) =
      (Inr \<lparr>txId = ''tx_2'', balance = 100, timestamp_res = 1002\<rparr>, s1)"
    and b1: "GET s1 ''balance:u'' = Some 100"
    by (simp_all add: s1_def initializeUser_absent)
  have d: "deduct (env_ex 3) s1 ''u'' (Fin 10) ''x'' None =
      (Inr \<lparr>txId = ''tx_3'', balance = 90, timestamp_res = 1003\<rparr>, s2)"
    and b2: "GET s2 ''balance:u'' = Some 90"
    using b1 by (simp_all add: s2_def deduct_sufficient)
  have a: "add (env_ex 4) s2 ''u'' (Fin 50) ''y'' None =
      (Inr \<lparr>txId = ''tx_4'', balance = 140, timestamp_res = 1004\<rparr>, s3)"
    and b3: "GET s3 ''balance:u'' = Some 140"
    using b2 by (simp_all add: s3_def add_valid)
  have p200: "(0::rat) < 200" by simp
  have n: "balance_or_zero s3 (getBalanceKey ''u'') = of_nat 140" "(140::nat) < 10 ^ 14"
    "(of_nat 140 :: rat) < 200"
    using b3 by simp_all
  have r: "deduct (env_ex 5) s3 ''u'' (Fin 200) ''x'' None =
      (Inl (InsufficientCreditsError 200 140), s3)"
    using deduct_reports_small_balance [OF validateUserId_u p200 action_missing_x n, of "env_ex 5" None]
    by simp
  show ?thesis
    by (simp add: scenario_def i d a r b3)
qed



section \<open>Transaction queries\<close>

lemma parse_results_length: "parse_results ms = Inr txs \<Longrightarrow> length txs = length ms"
  by (induction ms arbitrary: txs) (auto split: option.splits sum.splits)

lemma parse_results_TxJson [simp]: "parse_results (map TxJson txs) = Inr txs"
  by (induction txs) auto

lemma zrange_rev_length: "0 \<le> stop \<Longrightarrow> length (zrange_rev z 0 stop) \<le> nat (stop + 1)"
  by (auto simp: zrange_rev_def Let_def)

text \<open>
  The query of the built package does what the documentation of the package says: it
  rejects a limit that is not positive, never returns more than 1000 transactions, and
  without time bounds selects by rank, newest first.
\<close>

lemma getTransactions_dist_rejects:
  "validateUserId userId = None \<Longrightarrow> limit options = Some l \<Longrightarrow> l \<le> 0 \<Longrightarrow>
     getTransactions_dist now s userId options =
       Inl (TransactionError ''limit must be a positive integer'' None)"
  by (simp add: getTransactions_dist_def)

lemma getTransactions_dist_capped:
  assumes "getTransactions_dist now s userId options = Inr txs"
  shows "length txs \<le> 1000"
proof -
  define l where "l = (case limit options of None \<Rightarrow> 50 | Some l \<Rightarrow> l)"
  define z where "z = zsets s (getTransactionsKey userId)"
  have pos: "0 < l"
    using assms by (auto simp: getTransactions_dist_def l_def Let_def split: option.splits if_splits)
  define eff where "eff = min l MAX_RESULTS"
  have eff: "0 < eff" "eff \<le> 1000"
    using pos by (simp_all add: eff_def MAX_RESULTS_def)
  show ?thesis
  proof (cases "startTime options = None \<and> endTime options = None")
    case True
    then have "parse_results (zrange_rev z 0 (eff - 1)) = Inr txs"
      using assms pos
      by (auto simp: getTransactions_dist_def Let_def l_def z_def eff_def split: option.splits if_splits)
    then have "length txs = length (zrange_rev z 0 (eff - 1))"
      by (rule parse_results_length)
    also have "\<dots> \<le> nat (eff - 1 + 1)"
      using eff by (intro zrange_rev_length) simp
    finally show ?thesis using eff by simp
  next
    case False
    then obtain ms where "parse_results (take (nat eff) ms) = Inr txs"
      using assms pos
      by (auto simp: getTransactions_dist_def Let_def l_def z_def eff_def split: option.splits if_splits)
    then have "length txs = length (take (nat eff) ms)"
      by (rule parse_results_length)
    then show ?thesis using eff by simp
  qed
qed

lemma getTransactions_dist_by_rank:
  assumes "validateUserId userId = None" "limit options = Some l" "0 < l"
    and "startTime options = None" "endTime options = None"
  shows "getTransactions_dist now s userId options =
     parse_results (take (nat (min l 1000))
       (map snd (rev (sort_key fst (zsets s (getTransactionsKey userId))))))"
proof -
  define xs where "xs = map snd (rev (sort_key fst (zsets s (getTransactionsKey userId))))"
  have "zrange_rev (zsets s (getTransactionsKey userId)) 0 (min l 1000 - 1) = take (nat (min l 1000)) xs"
  proof (cases "xs = []")
    case True
    then show ?thesis
      using assms(3) by (simp add: zrange_rev_def Let_def flip: xs_def)
  next
    case False
    then have n: "0 < int (length xs)" by simp
    have "take (nat (min (min l 1000 - 1) (int (length xs) - 1) + 1)) xs = take (nat (min l 1000)) xs"
    proof (cases "min l 1000 \<le> int (length xs)")
      case True
      then have "min (min l 1000 - 1) (int (length xs) - 1) + 1 = min l 1000" by simp
      then show ?thesis by simp
    next
      case False
      then have "min (min l 1000 - 1) (int (length xs) - 1) + 1 = int (length xs)" by simp
      then show ?thesis using False by simp
    qed
    moreover have "\<not> min (min l 1000 - 1) (int (length xs) - 1) < 0"
      using assms(3) n by arith
    ultimately show ?thesis
      using assms(3) by (simp add: zrange_rev_def Let_def flip: xs_def)
  qed
  then show ?thesis
    using assms by (simp add: getTransactions_dist_def Let_def MAX_RESULTS_def xs_def)
qed

text \<open>
  C8 on client.ts. With a valid user and no time bounds the query is the reverse range by
  score from 0 to \<open>Date.now()\<close>; in a reverse range by score the first bound is the
  highest score, so for a clock after the epoch no score lies in the range and the result
  is empty, whatever the log holds and whatever the limit.
\<close>

theorem getTransactions_unbounded_empty:
  assumes "validateUserId userId = None" and "0 < now"
    and "startTime options = None" and "endTime options = None"
  shows "getTransactions now s userId options = Inr []"
proof -
  have "filter (\<lambda>e. now \<le> fst e \<and> fst e \<le> 0) xs = []" for xs :: zset
    using assms(2) by (induction xs) auto
  then show ?thesis
    using assms by (simp add: getTransactions_def zrange_byscore_rev_def Let_def)
qed

lemma sort_key_tampered:
  "sort_key fst (zsets tampered_store ''txs:u'') =
     [(1002, TxJson (initialize_transaction (env_ex 2) 100)),
      (1003, TxJson (deduct_transaction (env_ex 3) 10 ''x'' None))]"
  by simp

theorem getTransactions_unbounded_empty_witness:
  "validateUserId ''u'' = None \<and> (0::int) < 5000 \<and>
   log_transactions (zsets tampered_store ''txs:u'') =
     [deduct_transaction (env_ex 3) 10 ''x'' None, initialize_transaction (env_ex 2) 100] \<and>
   getTransactions 5000 tampered_store ''u'' \<lparr>limit = Some 5, startTime = None, endTime = None\<rparr>
     = Inr [] \<and>
   getTransactions_dist 5000 tampered_store ''u'' \<lparr>limit = Some 5, startTime = None, endTime = None\<rparr>
     = Inr [deduct_transaction (env_ex 3) 10 ''x'' None, initialize_transaction (env_ex 2) 100]"
proof -
  have now: "(0::int) < 5000" by simp
  have "getTransactions 5000 tampered_store ''u'' \<lparr>limit = Some 5, startTime = None, endTime = None\<rparr>
     = Inr []"
    using getTransactions_unbounded_empty [OF validateUserId_u now,
        of "\<lparr>limit = Some 5, startTime = None, endTime = None\<rparr>" tampered_store]
    by simp
  moreover have "getTransactions_dist 5000 tampered_store ''u''
      \<lparr>limit = Some 5, startTime = None, endTime = None\<rparr>
     = Inr [deduct_transaction (env_ex 3) 10 ''x'' None, initialize_transaction (env_ex 2) 100]"
    using getTransactions_dist_by_rank [OF validateUserId_u, of
        "\<lparr>limit = Some 5, startTime = None, endTime = None\<rparr>" 5 5000 tampered_store]
    by (simp add: sort_key_tampered)
  moreover have "log_transactions (zsets tampered_store ''txs:u'') =
     [deduct_transaction (env_ex 3) 10 ''x'' None, initialize_transaction (env_ex 2) 100]"
    by (simp add: log_transactions_def)
  ultimately show ?thesis by simp
qed

lemma zsets_bulk_store [simp]: "zsets (bulk_store n) ''txs:u'' = bulk_log n"
  by (simp add: bulk_store_def)

lemma getTransactions_bulk:
  "getTransactions now (bulk_store n) ''u''
     \<lparr>limit = Some (int n), startTime = Some 7, endTime = Some 7\<rparr> =
   Inr (map (the \<circ> JSON_parse \<circ> snd) (rev (sort_key fst (bulk_log n))))"
proof -
  define xs where "xs = rev (sort_key fst (bulk_log n))"
  have set: "set xs = set (bulk_log n)" by (simp add: xs_def)
  have len: "length xs = n" by (simp add: xs_def bulk_log_def)
  have "\<forall>e \<in> set xs. 7 \<le> fst e \<and> fst e \<le> 7"
    by (auto simp: set bulk_log_def)
  then have f: "filter (\<lambda>e. 7 \<le> fst e \<and> fst e \<le> 7) xs = xs"
    by (simp add: filter_id_conv)
  have "\<forall>e \<in> set xs. \<exists>tx. snd e = TxJson tx"
    by (auto simp: set bulk_log_def)
  then have "map snd xs = map TxJson (map (the \<circ> JSON_parse \<circ> snd) xs)"
    by (induction xs) auto
  then have "parse_results (map snd xs) = Inr (map (the \<circ> JSON_parse \<circ> snd) xs)"
    by (simp only: parse_results_TxJson)
  then show ?thesis
    using f len by (simp add: getTransactions_def zrange_byscore_rev_def Let_def flip: xs_def)
qed


end
